theory Spec2Isabelle
  imports Complex_Main "HOL-Library.AList" "HOL-Library.Char_ord" "HOL-Library.List_Lexorder"
begin

section \<open>Data model\<close>

text \<open>
  A cell of a column is a number, a categorical token or Python's \<open>None\<close>. Python's
  \<open>int\<close> and \<open>float\<close> are one constructor over the exact rationals: \<open>1 == 1.0\<close> holds in
  Python and both hash alike, so they are one dictionary key, and the arithmetic of the
  statistics is read as exact arithmetic (rounding of floats is not modelled).
\<close>

datatype cell = Num rat | Str string | Null

datatype py_error = TypeError | ValueError | KeyError

text \<open>
  A dictionary is an association list in insertion order; the keys of a real dictionary are
  distinct. \<open>d[k]\<close> raises \<open>KeyError\<close> on a missing key, \<open>d[k] = v\<close> overwrites in
  place or appends (\<open>AList.update\<close>).
\<close>

type_synonym dataset = "(string \<times> cell list) list"

definition dict_get :: "('k \<times> 'v) list \<Rightarrow> 'k \<Rightarrow> py_error + 'v" where
  "dict_get d k = (case map_of d k of None \<Rightarrow> Inl KeyError | Some v \<Rightarrow> Inr v)"

definition dict_del :: "('k \<times> 'v) list \<Rightarrow> 'k \<Rightarrow> py_error + ('k \<times> 'v) list" where
  "dict_del d k = (if k \<in> fst ` set d then Inr (AList.delete k d) else Inl KeyError)"

fun is_numeric :: "cell \<Rightarrow> bool" where
  "is_numeric (Num r) = True"
| "is_numeric v = False"

fun is_str :: "cell \<Rightarrow> bool" where
  "is_str (Str s) = True"
| "is_str v = False"

fun num_of :: "cell \<Rightarrow> rat" where
  "num_of (Num r) = r"
| "num_of v = 0"

fun str_of :: "cell \<Rightarrow> string" where
  "str_of (Str s) = s"
| "str_of v = []"

text \<open>
  \<open>sorted(xs)\<close>: numbers are ordered among themselves and strings among themselves
  (by code point, lexicographically); any other comparison the sort makes (\<open>None\<close> with
  anything, a number with a string) raises \<open>TypeError\<close>. A list of fewer than two
  elements is never compared.
\<close>

definition py_sorted :: "cell list \<Rightarrow> py_error + cell list" where
  "py_sorted xs =
     (if length xs < 2 then Inr xs
      else if list_all is_numeric xs then Inr (map Num (sort (map num_of xs)))
      else if list_all is_str xs then Inr (map Str (sort (map str_of xs)))
      else Inl TypeError)"

section \<open>Statistics\<close>

text \<open>
  The argument of the constructor is any Python object: a dictionary whose values are lists
  or other objects, or something that is not a dictionary.
\<close>

datatype pyvalue = PyList "cell list" | NonList

datatype pyarg = PyDict "(string \<times> pyvalue) list" | NonDict

fun is_list :: "pyvalue \<Rightarrow> bool" where
  "is_list (PyList xs) = True"
| "is_list NonList = False"

fun list_of :: "pyvalue \<Rightarrow> cell list" where
  "list_of (PyList xs) = xs"
| "list_of NonList = []"

fun Statistics_init :: "pyarg \<Rightarrow> py_error + dataset" where
  "Statistics_init NonDict = Inl TypeError"
| "Statistics_init (PyDict kvs) =
     (if \<not> list_all is_list (map snd kvs) then Inl TypeError
      else if kvs = [] then Inl ValueError
      else if card (set (map (\<lambda>value. length (list_of value)) (map snd kvs))) \<noteq> 1
        then Inl ValueError
      else Inr (map (\<lambda>(k, value). (k, list_of value)) kvs))"

text \<open>
  \<open>_validate_column(self, column)\<close> has one parameter besides \<open>self\<close>. Python checks the
  number of positional arguments at the call and raises \<open>TypeError\<close> when it differs, so
  the model takes the list of arguments a call site passes.
\<close>

fun validate_column :: "dataset \<Rightarrow> string list \<Rightarrow> py_error + unit" where
  "validate_column ds [column] =
     (if column \<in> fst ` set ds then Inr () else Inl KeyError)"
| "validate_column ds args = Inl TypeError"

definition mean :: "dataset \<Rightarrow> string \<Rightarrow> py_error + rat" where
  "mean ds column =
     (case validate_column ds [column] of Inl e \<Rightarrow> Inl e | Inr u \<Rightarrow>
      (case dict_get ds column of Inl e \<Rightarrow> Inl e | Inr valores_coluna \<Rightarrow>
       (let valores_validos = filter (\<lambda>v. v \<noteq> Null) valores_coluna in
        if valores_validos = [] then Inl ValueError
        else if \<not> list_all is_numeric valores_validos then Inl TypeError
        else Inr (sum_list (map num_of valores_validos) / of_nat (length valores_validos)))))"

text \<open>The counting loop of \<open>absolute_frequency\<close>, one step per value of the column.\<close>

fun count_values :: "cell list \<Rightarrow> (cell \<times> nat) list \<Rightarrow> (cell \<times> nat) list" where
  "count_values [] frequencia = frequencia"
| "count_values (v # vs) frequencia =
     count_values vs
       (case map_of frequencia v of
          Some c \<Rightarrow> AList.update v (c + 1) frequencia
        | None \<Rightarrow> AList.update v 1 frequencia)"

definition absolute_frequency :: "dataset \<Rightarrow> string \<Rightarrow> py_error + (cell \<times> nat) list" where
  "absolute_frequency ds column =
     (case validate_column ds [column] of Inl e \<Rightarrow> Inl e | Inr u \<Rightarrow>
      (case dict_get ds column of Inl e \<Rightarrow> Inl e | Inr valores_coluna \<Rightarrow>
       if valores_coluna = [] then Inl ValueError
       else Inr (count_values valores_coluna [])))"

text \<open>\<open>max\<close> of a non-empty list; Python raises \<open>ValueError\<close> on an empty one.\<close>

fun py_max :: "'a::linorder list \<Rightarrow> py_error + 'a" where
  "py_max [] = Inl ValueError"
| "py_max (x # xs) = Inr (fold max xs x)"

definition mode :: "dataset \<Rightarrow> string \<Rightarrow> py_error + cell list" where
  "mode ds column =
     (case validate_column ds [column] of Inl e \<Rightarrow> Inl e | Inr u \<Rightarrow>
      (case dict_get ds column of Inl e \<Rightarrow> Inl e | Inr todos \<Rightarrow>
       (let valores_coluna = filter (\<lambda>v. v \<noteq> Null) todos in
        if valores_coluna = [] then Inl ValueError
        else
          (case absolute_frequency ds column of Inl e \<Rightarrow> Inl e | Inr frequencias \<Rightarrow>
           (case py_max (map snd frequencias) of Inl e \<Rightarrow> Inl e
            | Inr numero_maximo_repeticoes \<Rightarrow>
                Inr (map fst (filter (\<lambda>(k, v). v = numero_maximo_repeticoes) frequencias)))))))"

text \<open>
  The loop of \<open>relative_frequency\<close>. Its guard \<open>valor not in frequencia_relativa\<close> looks
  the count \<open>valor\<close> up among the keys inserted so far, which are cells of the column; an
  integer count equals a key exactly when the key is that number.
\<close>

fun relative_loop ::
  "nat \<Rightarrow> (cell \<times> nat) list \<Rightarrow> (cell \<times> rat) list \<Rightarrow> (cell \<times> rat) list" where
  "relative_loop numero_itens [] frequencia_relativa = frequencia_relativa"
| "relative_loop numero_itens ((chave, valor) # rest) frequencia_relativa =
     relative_loop numero_itens rest
       (if Num (of_nat valor) \<notin> fst ` set frequencia_relativa
        then AList.update chave (of_nat valor / of_nat numero_itens) frequencia_relativa
        else frequencia_relativa)"

definition relative_frequency :: "dataset \<Rightarrow> string \<Rightarrow> py_error + (cell \<times> rat) list" where
  "relative_frequency ds column =
     (case absolute_frequency ds column of Inl e \<Rightarrow> Inl e | Inr frequencia_absoluta \<Rightarrow>
      (case dict_get ds column of Inl e \<Rightarrow> Inl e | Inr valores_coluna \<Rightarrow>
       Inr (relative_loop (length valores_coluna) frequencia_absoluta [])))"

text \<open>The running sum of \<open>cumulative_frequency\<close> over the sorted keys.\<close>

fun cumulative_loop ::
  "(cell \<times> rat) list \<Rightarrow> cell list \<Rightarrow> rat \<Rightarrow> (cell \<times> rat) list
     \<Rightarrow> py_error + (cell \<times> rat) list" where
  "cumulative_loop frequencia [] soma acumulada = Inr acumulada"
| "cumulative_loop frequencia (chave # rest) soma acumulada =
     (case dict_get frequencia chave of Inl e \<Rightarrow> Inl e | Inr f \<Rightarrow>
      cumulative_loop frequencia rest (soma + f) (AList.update chave (soma + f) acumulada))"

definition cumulative_frequency ::
  "dataset \<Rightarrow> string \<Rightarrow> string \<Rightarrow> py_error + (cell \<times> rat) list" where
  "cumulative_frequency ds column frequency_method =
     (case validate_column ds [column] of Inl e \<Rightarrow> Inl e | Inr u \<Rightarrow>
      if frequency_method \<notin> {''absolute'', ''relative''} then Inl ValueError
      else
        (case (if frequency_method = ''absolute''
               then map_sum id (map (\<lambda>(k, c). (k, of_nat c))) (absolute_frequency ds column)
               else relative_frequency ds column) of
           Inl e \<Rightarrow> Inl e
         | Inr frequencia \<Rightarrow>
             (case py_sorted (map fst frequencia) of Inl e \<Rightarrow> Inl e
              | Inr chaves_ordenadas \<Rightarrow> cumulative_loop frequencia chaves_ordenadas 0 [])))"

text \<open>
  What \<open>conditional_probability\<close> hands back with \<open>return\<close>: the quotient, or an
  exception object that was built but not raised.
\<close>

datatype returned = FloatValue rat | ExceptionObject py_error

definition scan_pairs :: "cell list \<Rightarrow> cell \<Rightarrow> cell \<Rightarrow> nat \<times> nat" where
  "scan_pairs valores_coluna value1 value2 =
     fold (\<lambda>i (evento_b, evento_a_b).
             if valores_coluna ! i = value2
             then (evento_b + 1,
                   if valores_coluna ! (i + 1) = value1 then evento_a_b + 1 else evento_a_b)
             else (evento_b, evento_a_b))
          [0 ..< length valores_coluna - 1] (0, 0)"

definition conditional_probability ::
  "dataset \<Rightarrow> string \<Rightarrow> cell \<Rightarrow> cell \<Rightarrow> py_error + returned" where
  "conditional_probability ds column value1 value2 =
     (case validate_column ds [column] of Inl e \<Rightarrow> Inl e | Inr u \<Rightarrow>
      (case dict_get ds column of Inl e \<Rightarrow> Inl e | Inr valores_coluna \<Rightarrow>
       if length valores_coluna < 2 then Inr (ExceptionObject KeyError)
       else
         (case scan_pairs valores_coluna value1 value2 of (evento_b, evento_a_b) \<Rightarrow>
            if evento_b = 0 then Inr (ExceptionObject KeyError)
            else Inr (FloatValue (of_nat evento_a_b / of_nat evento_b)))))"

text \<open>
  The sum of products of \<open>covariance\<close>: subtracting a mean from \<open>None\<close> or from a string
  raises \<open>TypeError\<close>.
\<close>

fun deviation_products :: "(cell \<times> cell) list \<Rightarrow> rat \<Rightarrow> rat \<Rightarrow> py_error + rat" where
  "deviation_products [] media_a media_b = Inr 0"
| "deviation_products ((Num a, Num b) # rest) media_a media_b =
     (case deviation_products rest media_a media_b of Inl e \<Rightarrow> Inl e
      | Inr s \<Rightarrow> Inr ((a - media_a) * (b - media_b) + s))"
| "deviation_products (p # rest) media_a media_b = Inl TypeError"

definition covariance :: "dataset \<Rightarrow> string \<Rightarrow> string \<Rightarrow> py_error + rat" where
  "covariance ds column_a column_b =
     (case validate_column ds [column_a, column_b] of Inl e \<Rightarrow> Inl e | Inr u \<Rightarrow>
      (case dict_get ds column_a of Inl e \<Rightarrow> Inl e | Inr valores_coluna_a \<Rightarrow>
       (case dict_get ds column_b of Inl e \<Rightarrow> Inl e | Inr valores_coluna_b \<Rightarrow>
        if valores_coluna_a = [] \<or> valores_coluna_b = [] then Inl ValueError
        else if filter (\<lambda>(a, b). a \<noteq> Null \<and> b \<noteq> Null) (zip valores_coluna_a valores_coluna_b) = []
          then Inl ValueError
        else
          (case mean ds column_a of Inl e \<Rightarrow> Inl e | Inr media_coluna_a \<Rightarrow>
           (case mean ds column_b of Inl e \<Rightarrow> Inl e | Inr media_coluna_b \<Rightarrow>
            (case deviation_products (zip valores_coluna_a valores_coluna_b)
                    media_coluna_a media_coluna_b of
               Inl e \<Rightarrow> Inl e
             | Inr soma \<Rightarrow> Inr (soma / of_nat (length valores_coluna_a))))))))"

section \<open>Preprocessing\<close>


text \<open>One column of \<open>minMax_scaler\<close>; \<open>None\<close> is the \<open>continue\<close> of the loop.\<close>

definition minMax_column :: "cell list \<Rightarrow> cell list option" where
  "minMax_column valores =
     (let valores_numericos = map num_of (filter is_numeric valores) in
      if valores_numericos = [] then None
      else
        (let valor_minimo = Min (set valores_numericos);
             valor_maximo = Max (set valores_numericos);
             intervalo_valores = valor_maximo - valor_minimo
         in if intervalo_valores = 0
            then Some (map (\<lambda>valor. if is_numeric valor then Num 0 else valor) valores)
            else Some (map (\<lambda>valor. if is_numeric valor
                                   then Num ((num_of valor - valor_minimo) / intervalo_valores)
                                   else valor) valores)))"

fun minMax_loop :: "dataset \<Rightarrow> string list \<Rightarrow> dataset \<times> py_error option" where
  "minMax_loop ds [] = (ds, None)"
| "minMax_loop ds (coluna # rest) =
     (case dict_get ds coluna of Inl e \<Rightarrow> (ds, Some e) | Inr valores \<Rightarrow>
      (case minMax_column valores of
         None \<Rightarrow> minMax_loop ds rest
       | Some valores_escalonados \<Rightarrow>
           minMax_loop (AList.update coluna valores_escalonados ds) rest))"


text \<open>
  The categories of a column: the sorted set of its values other than \<open>None\<close>. The set
  is its list of distinct elements; \<open>py_sorted\<close> does not depend on their order.
\<close>

definition categorias_of :: "cell list \<Rightarrow> py_error + cell list" where
  "categorias_of valores = py_sorted (remdups (filter (\<lambda>v. v \<noteq> Null) valores))"

fun encode_values :: "(cell \<times> nat) list \<Rightarrow> cell list \<Rightarrow> py_error + cell list" where
  "encode_values mapa_categorias [] = Inr []"
| "encode_values mapa_categorias (valor # rest) =
     (if valor = Null
      then map_sum id (\<lambda>cs. Null # cs) (encode_values mapa_categorias rest)
      else (case dict_get mapa_categorias valor of Inl e \<Rightarrow> Inl e
            | Inr i \<Rightarrow> map_sum id (\<lambda>cs. Num (of_nat i) # cs) (encode_values mapa_categorias rest)))"

fun label_encode :: "dataset \<Rightarrow> string list \<Rightarrow> dataset \<times> py_error option" where
  "label_encode ds [] = (ds, None)"
| "label_encode ds (coluna # rest) =
     (if coluna \<notin> fst ` set ds then label_encode ds rest
      else
        (case dict_get ds coluna of Inl e \<Rightarrow> (ds, Some e) | Inr valores \<Rightarrow>
         (case categorias_of valores of Inl e \<Rightarrow> (ds, Some e) | Inr categorias \<Rightarrow>
          (case encode_values (zip categorias [0 ..< length categorias]) valores of
             Inl e \<Rightarrow> (ds, Some e)
           | Inr colunas_codificadas \<Rightarrow>
               label_encode (AList.update coluna colunas_codificadas ds) rest))))"

text \<open>
  The name of an indicator column, \<open>f"{coluna}_{categoria}"\<close>. A token is its own text;
  the text Python prints for a number is not modelled and is the parameter \<open>num_str\<close>.
\<close>

fun nova_coluna :: "(rat \<Rightarrow> string) \<Rightarrow> string \<Rightarrow> cell \<Rightarrow> string" where
  "nova_coluna num_str coluna (Str s) = coluna @ ''_'' @ s"
| "nova_coluna num_str coluna (Num r) = coluna @ ''_'' @ num_str r"
| "nova_coluna num_str coluna Null = coluna @ ''_None''"

definition indicator :: "cell \<Rightarrow> cell list \<Rightarrow> cell list" where
  "indicator categoria valores = map (\<lambda>valor. if valor = categoria then Num 1 else Num 0) valores"

fun oneHot_columns ::
  "(rat \<Rightarrow> string) \<Rightarrow> string \<Rightarrow> cell list \<Rightarrow> cell list \<Rightarrow> dataset \<Rightarrow> dataset" where
  "oneHot_columns num_str coluna valores [] ds = ds"
| "oneHot_columns num_str coluna valores (categoria # rest) ds =
     oneHot_columns num_str coluna valores rest
       (AList.update (nova_coluna num_str coluna categoria) (indicator categoria valores) ds)"

fun oneHot_encode ::
  "(rat \<Rightarrow> string) \<Rightarrow> dataset \<Rightarrow> string list \<Rightarrow> dataset \<times> py_error option" where
  "oneHot_encode num_str ds [] = (ds, None)"
| "oneHot_encode num_str ds (coluna # rest) =
     (case dict_get ds coluna of Inl e \<Rightarrow> (ds, Some e) | Inr valores \<Rightarrow>
      (case categorias_of valores of Inl e \<Rightarrow> (ds, Some e) | Inr categorias \<Rightarrow>
       (let ds1 = oneHot_columns num_str coluna valores categorias ds in
        case dict_del ds1 coluna of Inl e \<Rightarrow> (ds1, Some e)
        | Inr ds2 \<Rightarrow> oneHot_encode num_str ds2 rest)))"

section \<open>Lookups\<close>

lemma lookup_key: "map_of d k = Some v \<Longrightarrow> k \<in> fst ` set d"
  by (auto dest!: map_of_SomeD intro: image_eqI [where x = "(k, v)"])

lemma lookup_dict_get: "map_of d k = Some v \<Longrightarrow> dict_get d k = Inr v"
  by (simp add: dict_get_def)

section \<open>The constructor\<close>

lemma card_set_one_iff:
  "xs \<noteq> [] \<Longrightarrow> card (set xs) = 1 \<longleftrightarrow> (\<forall>x \<in> set xs. \<forall>y \<in> set xs. x = y)"
proof
  assume ne: "xs \<noteq> []" and c: "card (set xs) = 1"
  then obtain a where "set xs = {a}" by (auto simp: card_1_singleton_iff)
  then show "\<forall>x \<in> set xs. \<forall>y \<in> set xs. x = y" by simp
next
  assume ne: "xs \<noteq> []" and eq: "\<forall>x \<in> set xs. \<forall>y \<in> set xs. x = y"
  from ne obtain a where a: "a \<in> set xs" by (cases xs) auto
  with eq have "set xs = {a}" by auto
  then show "card (set xs) = 1" by simp
qed

lemma card_lengths:
  assumes "kvs \<noteq> []"
  shows "card (set (map (\<lambda>value. length (list_of value)) (map snd kvs))) = 1 \<longleftrightarrow>
    (\<forall>v \<in> set (map snd kvs). \<forall>w \<in> set (map snd kvs). length (list_of v) = length (list_of w))"
proof -
  have "map (\<lambda>value. length (list_of value)) (map snd kvs) \<noteq> []" using assms by simp
  from card_set_one_iff [OF this] show ?thesis by simp
qed

lemma init_Inl_iff:
  "(\<exists>e. Statistics_init (PyDict kvs) = Inl e) \<longleftrightarrow>
     \<not> list_all is_list (map snd kvs) \<or> kvs = [] \<or>
     card (set (map (\<lambda>value. length (list_of value)) (map snd kvs))) \<noteq> 1"
  by (simp del: set_map list.map_comp)

lemma init_error_iff:
  "(\<exists>e. Statistics_init (PyDict kvs) = Inl e) \<longleftrightarrow>
     (\<exists>v \<in> set (map snd kvs). \<not> is_list v) \<or> kvs = [] \<or>
     (\<exists>v \<in> set (map snd kvs). \<exists>w \<in> set (map snd kvs). length (list_of v) \<noteq> length (list_of w))"
proof (cases "kvs = []")
  case True
  then show ?thesis by simp
next
  case False
  have l: "\<not> list_all is_list (map snd kvs) \<longleftrightarrow> (\<exists>v \<in> set (map snd kvs). \<not> is_list v)"
    unfolding list_all_iff by blast
  have c: "card (set (map (\<lambda>value. length (list_of value)) (map snd kvs))) \<noteq> 1 \<longleftrightarrow>
    (\<exists>v \<in> set (map snd kvs). \<exists>w \<in> set (map snd kvs). length (list_of v) \<noteq> length (list_of w))"
    unfolding card_lengths [OF False] by blast
  show ?thesis
    unfolding init_Inl_iff l c ..
qed

lemma relist: "list_all is_list (map snd kvs) \<Longrightarrow>
   map (\<lambda>(k, xs). (k, PyList xs)) (map (\<lambda>(k, value). (k, list_of value)) kvs) = kvs"
proof (induction kvs)
  case Nil
  then show ?case by simp
next
  case (Cons p kvs)
  obtain k v where p: "p = (k, v)" by (cases p)
  with Cons.prems have "is_list v" by simp
  then obtain xs where "v = PyList xs" by (cases v) auto
  with Cons p show ?case by simp
qed

lemma init_Inr_iff: "Statistics_init (PyDict kvs) = Inr ds \<longleftrightarrow>
  list_all is_list (map snd kvs) \<and> kvs \<noteq> [] \<and> card (set (map (\<lambda>value. length (list_of value)) (map snd kvs))) = 1
  \<and> ds = map (\<lambda>(k, value). (k, list_of value)) kvs"
  by (simp del: set_map list.map_comp) blast

lemma same_len_cols:
  assumes same: "\<forall>v \<in> set (map snd kvs). \<forall>w \<in> set (map snd kvs). length (list_of v) = length (list_of w)"
    and p: "p \<in> set kvs"
  shows "\<forall>col \<in> set (map snd (map (\<lambda>(k, value). (k, list_of value)) kvs)). length col = length (list_of (snd p))"
proof
  fix col assume "col \<in> set (map snd (map (\<lambda>(k, value). (k, list_of value)) kvs))"
  then obtain q where q: "q \<in> set kvs" and col: "col = list_of (snd q)"
    by (auto simp: image_iff)
  from p have "snd p \<in> set (map snd kvs)" by simp
  moreover from q have "snd q \<in> set (map snd kvs)" by simp
  ultimately have "length (list_of (snd q)) = length (list_of (snd p))"
    using same by blast
  then show "length col = length (list_of (snd p))"
    unfolding col .
qed

lemma init_accepts1:
  assumes "Statistics_init (PyDict kvs) = Inr ds"
  shows "\<exists>n. \<forall>col \<in> set (map snd ds). length col = n"
proof -
  from assms have ne: "kvs \<noteq> []"
      and card: "card (set (map (\<lambda>value. length (list_of value)) (map snd kvs))) = 1"
      and ds: "ds = map (\<lambda>(k, value). (k, list_of value)) kvs"
    unfolding init_Inr_iff by blast+
  from card_lengths [OF ne] card
  have same: "\<forall>v \<in> set (map snd kvs). \<forall>w \<in> set (map snd kvs). length (list_of v) = length (list_of w)"
    by blast
  from ne obtain p where p: "p \<in> set kvs" by (cases kvs) auto
  from same_len_cols [OF same p] show ?thesis unfolding ds by (rule exI)
qed

lemma init_accepts2:
  assumes "Statistics_init (PyDict kvs) = Inr ds"
  shows "map (\<lambda>(k, xs). (k, PyList xs)) ds = kvs" and "ds \<noteq> []"
proof -
  from assms have l: "list_all is_list (map snd kvs)" and ne: "kvs \<noteq> []"
      and ds: "ds = map (\<lambda>(k, value). (k, list_of value)) kvs"
    unfolding init_Inr_iff by blast+
  show "map (\<lambda>(k, xs). (k, PyList xs)) ds = kvs" unfolding ds by (rule relist [OF l])
  show "ds \<noteq> []" using ne unfolding ds by simp
qed


text \<open>
  C5 (amended). Construction fails exactly when the argument is not a dictionary, some
  value is not a list, the dictionary is empty, or two columns differ in length. An accepted
  dataset is the argument itself, is not empty, and its columns have one common length;
  that length may be 0.
\<close>

theorem Statistics_init_fails_iff:
  "((\<exists>e. Statistics_init arg = Inl e) \<longleftrightarrow>
      (case arg of NonDict \<Rightarrow> True
       | PyDict kvs \<Rightarrow> (\<exists>v \<in> set (map snd kvs). \<not> is_list v) \<or> kvs = [] \<or>
           (\<exists>v \<in> set (map snd kvs). \<exists>w \<in> set (map snd kvs).
              length (list_of v) \<noteq> length (list_of w)))) \<and>
   (\<forall>ds. Statistics_init arg = Inr ds \<longrightarrow>
      arg = PyDict (map (\<lambda>(k, xs). (k, PyList xs)) ds) \<and> ds \<noteq> [] \<and>
      (\<exists>n. \<forall>col \<in> set (map snd ds). length col = n))"
proof (cases arg)
  case NonDict
  then show ?thesis by simp
next
  case (PyDict kvs)
  have "Statistics_init (PyDict kvs) = Inr ds \<longrightarrow>
      PyDict kvs = PyDict (map (\<lambda>(k, xs). (k, PyList xs)) ds) \<and> ds \<noteq> [] \<and>
      (\<exists>n. \<forall>col \<in> set (map snd ds). length col = n)" for ds
  proof
    assume h: "Statistics_init (PyDict kvs) = Inr ds"
    show "PyDict kvs = PyDict (map (\<lambda>(k, xs). (k, PyList xs)) ds) \<and> ds \<noteq> [] \<and>
      (\<exists>n. \<forall>col \<in> set (map snd ds). length col = n)"
      using init_accepts1 [OF h] init_accepts2 [OF h] by (intro conjI) simp_all
  qed
  then have acc: "\<forall>ds. Statistics_init (PyDict kvs) = Inr ds \<longrightarrow>
      PyDict kvs = PyDict (map (\<lambda>(k, xs). (k, PyList xs)) ds) \<and> ds \<noteq> [] \<and>
      (\<exists>n. \<forall>col \<in> set (map snd ds). length col = n)" ..
  show ?thesis
    unfolding PyDict pyarg.case
    by (rule conjI [OF init_error_iff acc])
qed

theorem Statistics_init_fails_iff_witness:
  "Statistics_init (PyDict [(''a'', PyList [Num 1, Null]), (''b'', PyList [Str ''x'', Str ''y''])])
     = Inr [(''a'', [Num 1, Null]), (''b'', [Str ''x'', Str ''y''])] \<and>
   (\<exists>n. \<forall>col \<in> set (map snd [(''a'', [Num 1, Null]), (''b'', [Str ''x'', Str ''y''])]).
      length col = n)"
proof -
  let ?arg = "PyDict [(''a'', PyList [Num 1, Null]), (''b'', PyList [Str ''x'', Str ''y''])]"
  let ?ds = "[(''a'', [Num 1, Null]), (''b'', [Str ''x'', Str ''y''])]"
  have h: "Statistics_init ?arg = Inr ?ds" by simp
  from Statistics_init_fails_iff [of ?arg]
  have "\<forall>ds. Statistics_init ?arg = Inr ds \<longrightarrow>
      ?arg = PyDict (map (\<lambda>(k, xs). (k, PyList xs)) ds) \<and> ds \<noteq> [] \<and>
      (\<exists>n. \<forall>col \<in> set (map snd ds). length col = n)"
    by (rule conjunct2)
  with h have "\<exists>n. \<forall>col \<in> set (map snd ?ds). length col = n" by blast
  with h show ?thesis by (rule conjI)
qed

text \<open>
  C5, as stated, fails: a dictionary whose only column is the empty list is accepted.
\<close>

theorem Statistics_init_accepts_empty_column:
  "Statistics_init (PyDict [(''a'', PyList [])]) = Inr [(''a'', [])]"
  by simp

section \<open>Conditional probability\<close>

lemma conditional_probability_short:
  "map_of ds column = Some vs \<Longrightarrow> length vs < 2 \<Longrightarrow>
   conditional_probability ds column value1 value2 = Inr (ExceptionObject KeyError)"
  by (simp add: conditional_probability_def lookup_key lookup_dict_get)

lemma conditional_probability_no_predecessor:
  "map_of ds column = Some vs \<Longrightarrow> fst (scan_pairs vs value1 value2) = 0 \<Longrightarrow>
   conditional_probability ds column value1 value2 = Inr (ExceptionObject KeyError)"
  by (auto simp: conditional_probability_def lookup_key lookup_dict_get split: prod.splits)

text \<open>
  C1. On a column of one row, and on a column where \<open>value2\<close> is never a predecessor, the call
  returns normally: its value is a \<open>KeyError\<close> object that was never raised.
\<close>

theorem conditional_probability_returns_exception_object:
  "conditional_probability [(''c'', [Num 1])] ''c'' (Num 1) (Num 1)
     = Inr (ExceptionObject KeyError) \<and>
   conditional_probability [(''c'', [Num 1, Num 2])] ''c'' (Num 1) (Num 3)
     = Inr (ExceptionObject KeyError)"
  by (simp add: conditional_probability_def dict_get_def scan_pairs_def)

text \<open>
  C6 (amended). On the sequence \<open>[B, A, B, A, B, C]\<close> of distinct tokens, \<open>B\<close> is a predecessor
  three times and is followed by \<open>A\<close> twice: the result for consequent \<open>A\<close> given \<open>B\<close> is
  2/3.
\<close>

theorem conditional_probability_example:
  assumes "distinct [A, B, C]" and "map_of ds column = Some [B, A, B, A, B, C]"
  shows "conditional_probability ds column A B = Inr (FloatValue (2 / 3))"
proof -
  from assms(1) have "A \<noteq> B" and "C \<noteq> A" by auto
  then show ?thesis
    by (simp add: conditional_probability_def lookup_key [OF assms(2)]
        lookup_dict_get [OF assms(2)] scan_pairs_def upt_rec)
qed

theorem conditional_probability_example_witness:
  "distinct [Str ''x'', Num 7, Null] \<and>
   conditional_probability [(''seq'', [Num 7, Str ''x'', Num 7, Str ''x'', Num 7, Null])] ''seq''
     (Str ''x'') (Num 7) = Inr (FloatValue (2 / 3))"
proof -
  have d: "distinct [Str ''x'', Num 7, Null]" by simp
  have m: "map_of [(''seq'', [Num 7, Str ''x'', Num 7, Str ''x'', Num 7, Null])] ''seq''
             = Some [Num 7, Str ''x'', Num 7, Str ''x'', Num 7, Null]" by simp
  from d conditional_probability_example [OF d m] show ?thesis by (rule conjI)
qed

text \<open>C6, as stated, fails: on that sequence the result is 2/3, not 1.\<close>

theorem conditional_probability_example_not_one:
  "conditional_probability
     [(''col'', [Str ''B'', Str ''A'', Str ''B'', Str ''A'', Str ''B'', Str ''C''])] ''col''
     (Str ''A'') (Str ''B'') = Inr (FloatValue (2 / 3)) \<and>
   conditional_probability
     [(''col'', [Str ''B'', Str ''A'', Str ''B'', Str ''A'', Str ''B'', Str ''C''])] ''col''
     (Str ''A'') (Str ''B'') \<noteq> Inr (FloatValue 1)"
  by (simp add: conditional_probability_def dict_get_def scan_pairs_def upt_rec)

section \<open>Frequencies and mode\<close>

text \<open>
  C2. On the column \<open>[1, 5]\<close> the count of 5 is 1, and 1 is already a key of the result when
  5 is reached, so the guard of the loop skips 5: the result has one entry and sums to 1/2.
\<close>

theorem relative_frequency_drops_value:
  "relative_frequency [(''c'', [Num 1, Num 5])] ''c'' = Inr [(Num 1, 1 / 2)]"
  by (simp add: relative_frequency_def absolute_frequency_def dict_get_def)

text \<open>
  C7. In \<open>relative\<close> mode the running sum is taken over the table of \<open>relative_frequency\<close>;
  on the column \<open>[1, 5]\<close> it ends at 1/2.
\<close>

theorem cumulative_frequency_relative_short:
  "cumulative_frequency [(''c'', [Num 1, Num 5])] ''c'' ''relative'' = Inr [(Num 1, 1 / 2)]"
  by (simp add: cumulative_frequency_def relative_frequency_def absolute_frequency_def
      dict_get_def py_sorted_def)

text \<open>
  C4. The frequency table is computed over the whole column, \<open>None\<close> included: on
  \<open>[None, None, 1]\<close> the only mode returned is \<open>None\<close>.
\<close>

theorem mode_returns_null:
  "mode [(''c'', [Null, Null, Num 1])] ''c'' = Inr [Null]"
  by (simp add: mode_def absolute_frequency_def dict_get_def)

section \<open>Covariance\<close>

lemma covariance_raises: "covariance ds column_a column_b = Inl TypeError"
  by (simp add: covariance_def)

text \<open>
  C3. \<open>covariance\<close> passes two column names to \<open>_validate_column\<close>, which takes one: the
  call raises \<open>TypeError\<close> before any column is read, here where both columns exist and the
  value the formula gives is 1/4.
\<close>

theorem covariance_type_error:
  "covariance [(''a'', [Num 1, Num 2]), (''b'', [Num 3, Num 4])] ''a'' ''b'' = Inl TypeError"
  by (simp add: covariance_def)

section \<open>Min-max scaling\<close>

lemma update_present_keys: "k \<in> fst ` set d \<Longrightarrow> fst ` set (AList.update k v d) = fst ` set d"
  by (auto simp: dom_update)

lemma minMax_loop_keys:
  "minMax_loop ds cols = (ds', e) \<Longrightarrow> fst ` set ds' = fst ` set ds"
proof (induction cols arbitrary: ds)
  case Nil
  then show ?case by simp
next
  case (Cons coluna rest)
  show ?case
  proof (cases "map_of ds coluna")
    case None
    with Cons.prems show ?thesis by (simp add: dict_get_def)
  next
    case (Some valores)
    then have k: "coluna \<in> fst ` set ds" by (rule lookup_key)
    show ?thesis
    proof (cases "minMax_column valores")
      case None
      with Cons.prems Some have "minMax_loop ds rest = (ds', e)" by (simp add: dict_get_def)
      then show ?thesis by (rule Cons.IH)
    next
      case (Some ws)
      with Cons.prems \<open>map_of ds coluna = Some valores\<close>
      have "minMax_loop (AList.update coluna ws ds) rest = (ds', e)" by (simp add: dict_get_def)
      then have "fst ` set ds' = fst ` set (AList.update coluna ws ds)" by (rule Cons.IH)
      then show ?thesis using k by (simp only: update_present_keys)
    qed
  qed
qed











section \<open>Label encoding\<close>

lemma numeric_cells: "list_all is_numeric xs \<Longrightarrow> map Num (map num_of xs) = xs"
  by (induction xs) (auto elim: is_numeric.elims)

lemma str_cells: "list_all is_str xs \<Longrightarrow> map Str (map str_of xs) = xs"
  by (induction xs) (auto elim: is_str.elims)

lemma py_sorted_set: "py_sorted xs = Inr ys \<Longrightarrow> set ys = set xs"
proof -
  assume h: "py_sorted xs = Inr ys"
  have n: "list_all is_numeric xs \<Longrightarrow> Num ` num_of ` set xs = set xs"
    using numeric_cells [of xs] by (metis list.set_map)
  have s: "list_all is_str xs \<Longrightarrow> Str ` str_of ` set xs = set xs"
    using str_cells [of xs] by (metis list.set_map)
  from h show ?thesis
    by (auto simp: py_sorted_def n s split: if_splits)
qed

lemma py_sorted_error: "py_sorted xs = Inl e \<Longrightarrow> e = TypeError"
  by (simp add: py_sorted_def split: if_splits)

lemma encode_values_total:
  "\<forall>v \<in> set vs. v \<noteq> Null \<longrightarrow> v \<in> fst ` set mapa \<Longrightarrow> \<exists>cs. encode_values mapa vs = Inr cs"
proof (induction vs)
  case Nil
  then show ?case by simp
next
  case (Cons v vs)
  then obtain cs where cs: "encode_values mapa vs = Inr cs" by auto
  show ?case
  proof (cases "v = Null")
    case True
    with cs show ?thesis by simp
  next
    case False
    with Cons.prems have "v \<in> fst ` set mapa" by simp
    then obtain i where "map_of mapa v = Some i"
      by (cases "map_of mapa v") (auto simp: map_of_eq_None_iff)
    with cs False show ?thesis by (simp add: dict_get_def)
  qed
qed

lemma encode_column_total:
  assumes "categorias_of valores = Inr categorias"
  shows "\<exists>cs. encode_values (zip categorias [0 ..< length categorias]) valores = Inr cs"
proof -
  from assms have "set categorias = set (remdups (filter (\<lambda>v. v \<noteq> Null) valores))"
    unfolding categorias_of_def by (rule py_sorted_set)
  then have keys: "fst ` set (zip categorias [0 ..< length categorias]) = {v \<in> set valores. v \<noteq> Null}"
    by (auto simp flip: list.set_map)
  show ?thesis
    by (rule encode_values_total) (simp add: keys)
qed

lemma label_encode_error:
  "snd (label_encode ds cols) = Some e \<Longrightarrow> e = TypeError"
proof (induction cols arbitrary: ds)
  case Nil
  then show ?case by simp
next
  case (Cons coluna rest)
  show ?case
  proof (cases "coluna \<in> fst ` set ds")
    case False
    with Cons show ?thesis by simp
  next
    case True
    then obtain valores where v: "map_of ds coluna = Some valores"
      by (cases "map_of ds coluna") (auto simp: map_of_eq_None_iff)
    show ?thesis
    proof (cases "categorias_of valores")
      case (Inl err)
      then have "err = TypeError" unfolding categorias_of_def by (rule py_sorted_error)
      with Cons.prems True v Inl show ?thesis by (simp add: dict_get_def)
    next
      case (Inr categorias)
      from encode_column_total [OF this] obtain cs
        where "encode_values (zip categorias [0 ..< length categorias]) valores = Inr cs" ..
      with Cons.prems True v Inr
      have "snd (label_encode (AList.update coluna cs ds) rest) = Some e"
        by (simp add: dict_get_def)
      then show ?thesis by (rule Cons.IH)
    qed
  qed
qed

lemma label_encode_keys:
  "fst ` set (fst (label_encode ds cols)) = fst ` set ds"
proof (induction cols arbitrary: ds)
  case Nil
  then show ?case by simp
next
  case (Cons coluna rest)
  show ?case
  proof (cases "coluna \<in> fst ` set ds")
    case False
    with Cons show ?thesis by simp
  next
    case True
    have "fst ` set (fst (label_encode (AList.update coluna cs ds) rest)) = fst ` set ds" for cs
      using Cons.IH [of "AList.update coluna cs ds"] True by (simp add: update_present_keys)
    with True show ?thesis
      by (simp add: dict_get_def split: option.splits sum.splits)
  qed
qed

lemma label_encode_skip:
  "c \<notin> fst ` set ds \<Longrightarrow> label_encode ds cols = label_encode ds (removeAll c cols)"
proof (induction cols arbitrary: ds)
  case Nil
  then show ?case by simp
next
  case (Cons coluna rest)
  show ?case
  proof (cases "coluna \<in> fst ` set ds")
    case False
    with Cons show ?thesis by simp
  next
    case True
    with Cons.prems have ne: "c \<noteq> coluna" by auto
    have "label_encode (AList.update coluna cs ds) rest
            = label_encode (AList.update coluna cs ds) (removeAll c rest)" for cs
      using Cons.IH [of "AList.update coluna cs ds"] Cons.prems True
      by (simp add: update_present_keys)
    with True ne show ?thesis
      by (simp add: dict_get_def split: option.splits sum.splits)
  qed
qed

text \<open>
  C9. A requested name that is not a key of the dataset is skipped by \<open>label_encode\<close>: the
  call behaves as if the name had not been requested, the name is still not a key afterwards,
  and no call of \<open>label_encode\<close> ends in \<open>KeyError\<close> (the only exception it can end in is
  the \<open>TypeError\<close> of sorting values that cannot be compared).
\<close>

theorem label_encode_skips_absent:
  assumes "coluna \<notin> fst ` set ds"
  shows "label_encode ds (coluna # rest) = label_encode ds rest \<and>
         label_encode ds columns = label_encode ds (removeAll coluna columns) \<and>
         snd (label_encode ds columns) \<noteq> Some KeyError \<and>
         map_of (fst (label_encode ds columns)) coluna = None"
proof -
  from assms have "label_encode ds (coluna # rest) = label_encode ds rest" by simp
  moreover from assms have "label_encode ds columns = label_encode ds (removeAll coluna columns)"
    by (rule label_encode_skip)
  moreover have "snd (label_encode ds columns) \<noteq> Some KeyError"
    using label_encode_error [of ds columns KeyError] by auto
  moreover from assms have "coluna \<notin> fst ` set (fst (label_encode ds columns))"
    by (simp add: label_encode_keys)
  then have "map_of (fst (label_encode ds columns)) coluna = None"
    by (simp add: map_of_eq_None_iff)
  ultimately show ?thesis by blast
qed


theorem label_encode_skips_absent_witness:
  "''b'' \<notin> fst ` set [(''a'', [Str ''y'', Null, Str ''x''])] \<and>
   label_encode [(''a'', [Str ''y'', Null, Str ''x''])] [''b'', ''a'']
     = ([(''a'', [Num 1, Null, Num 0])], None) \<and>
   map_of (fst (label_encode [(''a'', [Str ''y'', Null, Str ''x''])] [''b'', ''a''])) ''b'' = None"
proof -
  let ?ds = "[(''a'', [Str ''y'', Null, Str ''x''])]"
  have a: "''b'' \<notin> fst ` set ?ds" by simp
  have r: "label_encode ?ds [''a''] = ([(''a'', [Num 1, Null, Num 0])], None)"
    by (simp add: dict_get_def categorias_of_def py_sorted_def)
  from label_encode_skips_absent [OF a, of "[''a'']" "[''b'', ''a'']"]
  have "label_encode ?ds [''b'', ''a''] = label_encode ?ds [''a'']"
    and "map_of (fst (label_encode ?ds [''b'', ''a''])) ''b'' = None"
    by blast+
  with a r show ?thesis by simp
qed

section \<open>One-hot encoding\<close>

lemma nova_coluna_neq: "nova_coluna num_str coluna categoria \<noteq> coluna"
  by (cases categoria) simp_all

lemma indicator_null_row:
  "i < length valores \<Longrightarrow> valores ! i = Null \<Longrightarrow> categoria \<noteq> Null \<Longrightarrow>
   indicator categoria valores ! i = Num 0"
  by (auto simp: indicator_def)

lemma length_indicator: "length (indicator categoria valores) = length valores"
  by (simp add: indicator_def)

lemma oneHot_columns_lookup:
  "(\<exists>categoria \<in> set categorias. n = nova_coluna num_str coluna categoria \<and>
      map_of (oneHot_columns num_str coluna valores categorias ds) n
        = Some (indicator categoria valores)) \<or>
   (n \<notin> nova_coluna num_str coluna ` set categorias \<and>
    map_of (oneHot_columns num_str coluna valores categorias ds) n = map_of ds n)"
proof (induction categorias arbitrary: ds)
  case Nil
  then show ?case by simp
next
  case (Cons categoria rest)
  let ?ds1 = "AList.update (nova_coluna num_str coluna categoria) (indicator categoria valores) ds"
  from Cons.IH [of ?ds1]
  consider (later) "\<exists>k \<in> set rest. n = nova_coluna num_str coluna k \<and>
      map_of (oneHot_columns num_str coluna valores rest ?ds1) n = Some (indicator k valores)"
    | (kept) "n \<notin> nova_coluna num_str coluna ` set rest"
        "map_of (oneHot_columns num_str coluna valores rest ?ds1) n = map_of ?ds1 n"
    by blast
  then show ?case
  proof cases
    case later
    then show ?thesis by auto
  next
    case kept
    show ?thesis
    proof (cases "n = nova_coluna num_str coluna categoria")
      case True
      with kept(2) have "map_of (oneHot_columns num_str coluna valores (categoria # rest) ds) n
          = Some (indicator categoria valores)"
        by (simp add: update_conv')
      with True show ?thesis by auto
    next
      case False
      with kept have "n \<notin> nova_coluna num_str coluna ` set (categoria # rest)"
        and "map_of (oneHot_columns num_str coluna valores (categoria # rest) ds) n = map_of ds n"
        by (simp_all add: update_conv')
      then show ?thesis by blast
    qed
  qed
qed

lemma oneHot_columns_keeps_column:
  "map_of (oneHot_columns num_str coluna valores categorias ds) coluna = map_of ds coluna"
  using oneHot_columns_lookup [where n = coluna and coluna = coluna and categorias = categorias
      and num_str = num_str and valores = valores and ds = ds]
    nova_coluna_neq [of num_str coluna]
  by (metis)


lemma sum_list_zero:
  fixes f :: "'a \<Rightarrow> rat"
  shows "(\<And>x. x \<in> set xs \<Longrightarrow> f x = 0) \<Longrightarrow> sum_list (map f xs) = 0"
  by (induction xs) simp_all

lemma categorias_set:
  "categorias_of valores = Inr categorias \<Longrightarrow> set categorias = {v \<in> set valores. v \<noteq> Null}"
  unfolding categorias_of_def by (drule py_sorted_set) auto

lemma oneHot_encode_single:
  assumes run: "oneHot_encode num_str ds [coluna] = (ds', None)"
    and col: "map_of ds coluna = Some valores"
  shows "\<exists>categorias. categorias_of valores = Inr categorias \<and>
           ds' = AList.delete coluna (oneHot_columns num_str coluna valores categorias ds)"
proof (cases "categorias_of valores")
  case (Inl e)
  with run col show ?thesis by (simp add: dict_get_def)
next
  case (Inr categorias)
  from col have "map_of (oneHot_columns num_str coluna valores categorias ds) coluna = Some valores"
    by (simp add: oneHot_columns_keeps_column)
  then have "coluna \<in> fst ` set (oneHot_columns num_str coluna valores categorias ds)"
    by (rule lookup_key)
  with run col Inr show ?thesis
    by (simp add: dict_get_def dict_del_def Let_def)
qed

text \<open>
  C10. After \<open>oneHot_encode\<close> on one column, for a row whose cell in that column was
  \<open>None\<close>: the original column is no longer a key; for every value of the column other than
  \<open>None\<close> the indicator column named after it exists, has one cell per row and holds 0 in
  that row; so the sum of the generated indicator columns in that row is 0.
\<close>

theorem oneHot_encode_null_rows:
  assumes run: "oneHot_encode num_str ds [coluna] = (ds', None)"
    and col: "map_of ds coluna = Some valores"
    and i: "i < length valores"
    and null: "valores ! i = Null"
  shows "map_of ds' coluna = None \<and>
    (\<forall>v \<in> set valores. v \<noteq> Null \<longrightarrow>
       (\<exists>ind. map_of ds' (nova_coluna num_str coluna v) = Some ind \<and>
              length ind = length valores \<and> ind ! i = Num 0)) \<and>
    (\<exists>categorias. categorias_of valores = Inr categorias \<and>
       (\<Sum>n \<leftarrow> remdups (map (nova_coluna num_str coluna) categorias).
           num_of (the (map_of ds' n) ! i)) = 0)"
proof -
  from oneHot_encode_single [OF run col] obtain categorias
    where cats: "categorias_of valores = Inr categorias"
      and ds': "ds' = AList.delete coluna (oneHot_columns num_str coluna valores categorias ds)"
    by blast
  have gone: "map_of ds' coluna = None"
    unfolding ds' by (simp add: delete_conv')
  have generated: "\<exists>ind. map_of ds' n = Some ind \<and> length ind = length valores \<and> ind ! i = Num 0"
    if n: "n \<in> nova_coluna num_str coluna ` set categorias" for n
  proof -
    from n oneHot_columns_lookup [where n = n and categorias = categorias and coluna = coluna]
    obtain k where k: "k \<in> set categorias"
      and at: "map_of (oneHot_columns num_str coluna valores categorias ds) n
                 = Some (indicator k valores)"
      by blast
    from k categorias_set [OF cats] have "k \<noteq> Null" by simp
    with i null have zero: "indicator k valores ! i = Num 0" by (rule indicator_null_row)
    from n have "n \<noteq> coluna" by (auto simp: nova_coluna_neq)
    with at have "map_of ds' n = Some (indicator k valores)"
      unfolding ds' by (simp add: delete_conv')
    with zero show ?thesis by (simp add: length_indicator)
  qed
  have each: "\<forall>v \<in> set valores. v \<noteq> Null \<longrightarrow>
       (\<exists>ind. map_of ds' (nova_coluna num_str coluna v) = Some ind \<and>
              length ind = length valores \<and> ind ! i = Num 0)"
  proof (intro ballI impI)
    fix v assume "v \<in> set valores" and "v \<noteq> Null"
    with categorias_set [OF cats] have "v \<in> set categorias" by simp
    then have "nova_coluna num_str coluna v \<in> nova_coluna num_str coluna ` set categorias"
      by (rule imageI)
    then show "\<exists>ind. map_of ds' (nova_coluna num_str coluna v) = Some ind \<and>
              length ind = length valores \<and> ind ! i = Num 0"
      by (rule generated)
  qed
  have "num_of (the (map_of ds' n) ! i) = 0"
    if "n \<in> set (remdups (map (nova_coluna num_str coluna) categorias))" for n
  proof -
    from that have "n \<in> nova_coluna num_str coluna ` set categorias" by simp
    from generated [OF this] show ?thesis by auto
  qed
  then have "(\<Sum>n \<leftarrow> remdups (map (nova_coluna num_str coluna) categorias).
           num_of (the (map_of ds' n) ! i)) = 0"
    by (rule sum_list_zero)
  with cats gone each show ?thesis by blast
qed



theorem oneHot_encode_null_rows_witness:
  "oneHot_encode (\<lambda>r. []) [(''c'', [Str ''x'', Null, Str ''y'']), (''d'', [Num 1, Num 2, Num 3])] [''c'']
     = ([(''d'', [Num 1, Num 2, Num 3]), (''c_x'', [Num 1, Num 0, Num 0]),
         (''c_y'', [Num 0, Num 0, Num 1])], None) \<and>
   map_of [(''d'', [Num 1, Num 2, Num 3]), (''c_x'', [Num 1, Num 0, Num 0]),
           (''c_y'', [Num 0, Num 0, Num 1])] ''c'' = None \<and>
   (\<exists>ind. map_of [(''d'', [Num 1, Num 2, Num 3]), (''c_x'', [Num 1, Num 0, Num 0]),
                   (''c_y'', [Num 0, Num 0, Num 1])] ''c_y'' = Some ind \<and>
          length ind = 3 \<and> ind ! 1 = Num 0)"
proof -
  let ?vs = "[Str ''x'', Null, Str ''y'']"
  let ?ds = "[(''c'', ?vs), (''d'', [Num 1, Num 2, Num 3])]"
  let ?ds' = "[(''d'', [Num 1, Num 2, Num 3]), (''c_x'', [Num 1, Num 0, Num 0]),
               (''c_y'', [Num 0, Num 0, Num 1])]"
  have run: "oneHot_encode (\<lambda>r. []) ?ds [''c''] = (?ds', None)"
    by (simp add: dict_get_def dict_del_def categorias_of_def py_sorted_def indicator_def)
  have col: "map_of ?ds ''c'' = Some ?vs" by simp
  have i: "(1::nat) < length ?vs" by simp
  have null: "?vs ! 1 = Null" by simp
  from oneHot_encode_null_rows [OF run col i null]
  have gone: "map_of ?ds' ''c'' = None"
    and each: "\<forall>v \<in> set ?vs. v \<noteq> Null \<longrightarrow>
       (\<exists>ind. map_of ?ds' (nova_coluna (\<lambda>r. []) ''c'' v) = Some ind \<and>
              length ind = length ?vs \<and> ind ! 1 = Num 0)"
    by blast+
  have "Str ''y'' \<in> set ?vs" and "Str ''y'' \<noteq> Null" by simp_all
  with each have "\<exists>ind. map_of ?ds' (nova_coluna (\<lambda>r. []) ''c'' (Str ''y'')) = Some ind \<and>
              length ind = length ?vs \<and> ind ! 1 = Num 0"
    by blast
  then have "\<exists>ind. map_of ?ds' ''c_y'' = Some ind \<and> length ind = 3 \<and> ind ! 1 = Num 0"
    by simp
  with run gone show ?thesis by blast
qed

end
